theory Spec2Isabelle
  imports Main
begin

section \<open>Python values and strings\<close>

text \<open>
  A Python \<open>str\<close> is a sequence of Unicode code points and \<open>len\<close> counts code points,
  so a string is modelled as a list of code points. \<open>str\<close> turns an ASCII literal
  into that representation.
\<close>

type_synonym pystr = "nat list"

definition str :: "string \<Rightarrow> pystr" where
  "str s = map of_char s"

text \<open>The Python objects that can reach the view's helpers.\<close>

datatype pyval = PyNone | PyBool bool | PyInt int | PyStr pystr | PyList "pyval list"

section \<open>Module globals\<close>

text \<open>
  \<open>settings\<close> is Django's settings object, read with \<open>getattr(settings, name, default)\<close>.
  The module has one global that its methods read, \<open>LIMIT\<close>, assigned once by the
  module-level statement \<open>LIMIT = getattr(settings, "HAYSTACK_MAX_RESULTS", 200)\<close>.
\<close>

type_synonym settings = "pystr \<rightharpoonup> int"

definition getattr :: "settings \<Rightarrow> pystr \<Rightarrow> int \<Rightarrow> int" where
  "getattr obj name dflt = (case obj name of None \<Rightarrow> dflt | Some v \<Rightarrow> v)"

record module_globals =
  LIMIT :: int

definition load_module :: "settings \<Rightarrow> module_globals" where
  "load_module conf = \<lparr>LIMIT = getattr conf (str ''HAYSTACK_MAX_RESULTS'') 200\<rparr>"

section \<open>TopicSearchQuerySet\<close>

text \<open>
  The class extends haystack's \<open>RelatedSearchQuerySet\<close>, which is a library and is taken
  as a parameter: \<open>super_len\<close>, \<open>super_count\<close> and \<open>super_fill_cache\<close> are the overridden
  methods of the base class.
\<close>

definition TopicSearchQuerySet_len :: "module_globals \<Rightarrow> ('qs \<Rightarrow> int) \<Rightarrow> 'qs \<Rightarrow> int" where
  "TopicSearchQuerySet_len g super_len self =
     (let ret = super_len self in
      if ret > LIMIT g then LIMIT g else ret)"

definition TopicSearchQuerySet_count :: "module_globals \<Rightarrow> ('qs \<Rightarrow> int) \<Rightarrow> 'qs \<Rightarrow> int" where
  "TopicSearchQuerySet_count g super_count self =
     (let ret = super_count self in
      if ret > LIMIT g then LIMIT g else ret)"

definition TopicSearchQuerySet_fill_cache ::
  "module_globals \<Rightarrow> (int option \<Rightarrow> int option \<Rightarrow> 'a) \<Rightarrow> int option \<Rightarrow> int option \<Rightarrow> 'a" where
  "TopicSearchQuerySet_fill_cache g super_fill_cache start end' =
     (let start = (case start of
                     None \<Rightarrow> None
                   | Some s \<Rightarrow> if s > LIMIT g then Some (LIMIT g) else Some s);
          end' = (case end' of
                    None \<Rightarrow> None
                  | Some e \<Rightarrow> if e > LIMIT g then Some (LIMIT g) else Some e)
      in super_fill_cache start end')"

text \<open>
  Modelled from the spec: the backend's materialization call, to which \<open>_fill_cache\<close>
  delegates (haystack's \<open>SearchQuerySet._fill_cache\<close> and the search backend behind it, a
  library that is not part of the source). The spec describes a requested window as a
  half-open pair \<open>[start, end)\<close> over the backend's result sequence; a bound that is unset
  has full-result semantics. The call returns the records whose position lies in the
  window.
\<close>

definition backend_materialize :: "'r list \<Rightarrow> int option \<Rightarrow> int option \<Rightarrow> 'r list" where
  "backend_materialize records start end' =
     (let s = (case start of None \<Rightarrow> 0 | Some s \<Rightarrow> s);
          e = (case end' of None \<Rightarrow> int (length records) | Some e \<Rightarrow> e)
      in drop (nat s) (take (nat e) records))"

text \<open>
  The spec's \<open>fetch_window(start, end)\<close>: \<open>_fill_cache\<close> with that materialization call
  as the base method, over the backend's result sequence \<open>records\<close>.
\<close>

definition fetch_window :: "module_globals \<Rightarrow> 'r list \<Rightarrow> int option \<Rightarrow> int option \<Rightarrow> 'r list" where
  "fetch_window g records start end' =
     TopicSearchQuerySet_fill_cache g (backend_materialize records) start end'"

section \<open>The module as Python executes it\<close>

text \<open>
  Whether a function rebinds a module global is a matter of Python's scoping, so the
  statements that touch \<open>LIMIT\<close> are also kept as statements and run by an evaluator
  with that scoping: the module-level assignment of \<open>LIMIT\<close> and the bodies of
  \<open>__len__\<close>, \<open>_fill_cache\<close> and \<open>count\<close>.

  A value is \<open>None\<close>, a boolean, an integer or an object without an ordering (a queryset,
  the keyword arguments).
\<close>

datatype val = VNone | VBool bool | VInt int | VObj nat

datatype exn = NameError pystr | UnboundLocalError pystr | TypeError

text \<open>
  The expressions of those statements: a name, a literal, \<open>a > b\<close>, \<open>a is not None\<close>,
  a call of a base class method on the values of the named variables, and
  \<open>getattr(settings, name, default)\<close>.
\<close>

datatype expr =
    Name pystr
  | Literal val
  | Gt expr expr
  | IsNotNone expr
  | SuperCall pystr "pystr list"
  | GetattrSettings pystr val

datatype stmt =
    Assign pystr expr
  | IfStmt expr "stmt list"
  | ExprStmt expr
  | Return expr
  | Global pystr

text \<open>
  The state of the process: the module's global names, the number of times the settings
  have been read, and the calls made to the base class, in order.
\<close>

record process =
  globals :: "pystr \<rightharpoonup> val"
  settings_reads :: nat
  super_calls :: "(pystr \<times> val list) list"

text \<open>
  A frame: the names that are local to the running function (none at module level)
  and the values bound to them so far.
\<close>

record frame =
  local_names :: "pystr list"
  locals :: "pystr \<rightharpoonup> val"

text \<open>What lies outside the module: the settings and the base class's methods.\<close>

record world =
  settings_of :: settings
  super_method :: "pystr \<Rightarrow> val list \<Rightarrow> val"

text \<open>
  A local name is read from the frame and is an \<open>UnboundLocalError\<close> before its first
  assignment; any other name is read from the module's globals.
\<close>

definition lookup :: "frame \<Rightarrow> process \<Rightarrow> pystr \<Rightarrow> exn + val" where
  "lookup fr p x =
     (if x \<in> set (local_names fr)
      then (case locals fr x of None \<Rightarrow> Inl (UnboundLocalError x) | Some v \<Rightarrow> Inr v)
      else (case globals p x of None \<Rightarrow> Inl (NameError x) | Some v \<Rightarrow> Inr v))"

fun lookup_all :: "frame \<Rightarrow> process \<Rightarrow> pystr list \<Rightarrow> exn + val list" where
  "lookup_all fr p [] = Inr []"
| "lookup_all fr p (x # xs) =
     (case lookup fr p x of
        Inl e \<Rightarrow> Inl e
      | Inr v \<Rightarrow> (case lookup_all fr p xs of Inl e \<Rightarrow> Inl e | Inr vs \<Rightarrow> Inr (v # vs)))"

text \<open>\<open>>\<close> compares numbers, a boolean counting as 0 or 1, and is a \<open>TypeError\<close> otherwise.\<close>

fun number :: "val \<Rightarrow> int option" where
  "number (VInt i) = Some i"
| "number (VBool b) = Some (if b then 1 else 0)"
| "number _ = None"

definition py_gt :: "val \<Rightarrow> val \<Rightarrow> exn + val" where
  "py_gt a b =
     (case (number a, number b) of
        (Some i, Some j) \<Rightarrow> Inr (VBool (i > j))
      | _ \<Rightarrow> Inl TypeError)"

fun truthy :: "val \<Rightarrow> bool" where
  "truthy VNone = False"
| "truthy (VBool b) = b"
| "truthy (VInt i) = (i \<noteq> 0)"
| "truthy (VObj _) = True"

fun eval_expr :: "world \<Rightarrow> frame \<Rightarrow> process \<Rightarrow> expr \<Rightarrow> (exn + val) \<times> process" where
  "eval_expr w fr p (Name x) = (lookup fr p x, p)"
| "eval_expr w fr p (Literal v) = (Inr v, p)"
| "eval_expr w fr p (Gt a b) =
     (case eval_expr w fr p a of
        (Inl e, p') \<Rightarrow> (Inl e, p')
      | (Inr x, p') \<Rightarrow>
          (case eval_expr w fr p' b of
             (Inl e, p'') \<Rightarrow> (Inl e, p'')
           | (Inr y, p'') \<Rightarrow> (py_gt x y, p'')))"
| "eval_expr w fr p (IsNotNone a) =
     (case eval_expr w fr p a of
        (Inl e, p') \<Rightarrow> (Inl e, p')
      | (Inr x, p') \<Rightarrow> (Inr (VBool (x \<noteq> VNone)), p'))"
| "eval_expr w fr p (SuperCall m xs) =
     (case lookup_all fr p xs of
        Inl e \<Rightarrow> (Inl e, p)
      | Inr vs \<Rightarrow> (Inr (super_method w m vs), p\<lparr>super_calls := super_calls p @ [(m, vs)]\<rparr>))"
| "eval_expr w fr p (GetattrSettings name dflt) =
     (Inr (case settings_of w name of None \<Rightarrow> dflt | Some v \<Rightarrow> VInt v),
      p\<lparr>settings_reads := Suc (settings_reads p)\<rparr>)"

datatype outcome = Normal | Returned val | Raised exn

text \<open>
  An assignment binds a local name in the frame and any other name in the module's
  globals; \<open>global x\<close> does nothing when it runs, its effect is on which names are local.
\<close>

fun exec :: "world \<Rightarrow> stmt \<Rightarrow> frame \<times> process \<Rightarrow> outcome \<times> frame \<times> process"
  and exec_block :: "world \<Rightarrow> stmt list \<Rightarrow> frame \<times> process \<Rightarrow> outcome \<times> frame \<times> process" where
  "exec w (Assign x e) (fr, p) =
     (case eval_expr w fr p e of
        (Inl ex, p') \<Rightarrow> (Raised ex, fr, p')
      | (Inr v, p') \<Rightarrow>
          if x \<in> set (local_names fr)
          then (Normal, fr\<lparr>locals := (locals fr)(x \<mapsto> v)\<rparr>, p')
          else (Normal, fr, p'\<lparr>globals := (globals p')(x \<mapsto> v)\<rparr>))"
| "exec w (IfStmt c blk) (fr, p) =
     (case eval_expr w fr p c of
        (Inl ex, p') \<Rightarrow> (Raised ex, fr, p')
      | (Inr v, p') \<Rightarrow> if truthy v then exec_block w blk (fr, p') else (Normal, fr, p'))"
| "exec w (ExprStmt e) (fr, p) =
     (case eval_expr w fr p e of
        (Inl ex, p') \<Rightarrow> (Raised ex, fr, p')
      | (Inr v, p') \<Rightarrow> (Normal, fr, p'))"
| "exec w (Return e) (fr, p) =
     (case eval_expr w fr p e of
        (Inl ex, p') \<Rightarrow> (Raised ex, fr, p')
      | (Inr v, p') \<Rightarrow> (Returned v, fr, p'))"
| "exec w (Global x) (fr, p) = (Normal, fr, p)"
| "exec_block w [] s = (Normal, s)"
| "exec_block w (st # sts) s =
     (case exec w st s of
        (Normal, s') \<Rightarrow> exec_block w sts s'
      | other \<Rightarrow> other)"

fun assigned_names :: "stmt \<Rightarrow> pystr list"
  and assigned_names_block :: "stmt list \<Rightarrow> pystr list" where
  "assigned_names (Assign x e) = [x]"
| "assigned_names (IfStmt c blk) = assigned_names_block blk"
| "assigned_names (ExprStmt e) = []"
| "assigned_names (Return e) = []"
| "assigned_names (Global x) = []"
| "assigned_names_block [] = []"
| "assigned_names_block (st # sts) = assigned_names st @ assigned_names_block sts"

fun declared_global :: "stmt \<Rightarrow> pystr list"
  and declared_global_block :: "stmt list \<Rightarrow> pystr list" where
  "declared_global (Global x) = [x]"
| "declared_global (IfStmt c blk) = declared_global_block blk"
| "declared_global (Assign x e) = []"
| "declared_global (ExprStmt e) = []"
| "declared_global (Return e) = []"
| "declared_global_block [] = []"
| "declared_global_block (st # sts) = declared_global st @ declared_global_block sts"

record funcdef =
  params :: "pystr list"
  body :: "stmt list"

text \<open>
  A call: the wrong number of arguments is a \<open>TypeError\<close>; the local names are the
  parameters and the names assigned in the body, less those the body declares global;
  falling off the end returns \<open>None\<close>.
\<close>

definition call_function :: "world \<Rightarrow> funcdef \<Rightarrow> val list \<Rightarrow> process \<Rightarrow> (exn + val) \<times> process" where
  "call_function w f args p =
     (if length args \<noteq> length (params f) then (Inl TypeError, p)
      else
        (let fr = \<lparr>local_names =
                     filter (\<lambda>x. x \<notin> set (declared_global_block (body f)))
                       (params f @ assigned_names_block (body f)),
                   locals = map_of (zip (params f) args)\<rparr>
         in case exec_block w (body f) (fr, p) of
              (Normal, fr', p') \<Rightarrow> (Inr VNone, p')
            | (Returned v, fr', p') \<Rightarrow> (Inr v, p')
            | (Raised e, fr', p') \<Rightarrow> (Inl e, p')))"

text \<open>
  The one statement at module level that binds \<open>LIMIT\<close>:
  \<open>LIMIT = getattr(settings, "HAYSTACK_MAX_RESULTS", 200)\<close>. Importing the module runs it
  once, from a process that has read no setting.
\<close>

definition module_body :: "stmt list" where
  "module_body =
     [Assign (str ''LIMIT'') (GetattrSettings (str ''HAYSTACK_MAX_RESULTS'') (VInt 200))]"

definition import_module :: "world \<Rightarrow> outcome \<times> process" where
  "import_module w =
     (case exec_block w module_body
             (\<lparr>local_names = [], locals = Map.empty\<rparr>,
              \<lparr>globals = Map.empty, settings_reads = 0, super_calls = []\<rparr>) of
        (out, fr, p) \<Rightarrow> (out, p))"

text \<open>The bodies of \<open>__len__\<close>, \<open>_fill_cache\<close> and \<open>count\<close>, statement by statement.\<close>

datatype wrapper_method = Len | FillCache | Count

fun method_def :: "wrapper_method \<Rightarrow> funcdef" where
  "method_def Len =
     \<lparr>params = [str ''self''],
      body =
        [Assign (str ''ret'') (SuperCall (str ''__len__'') [str ''self'']),
         IfStmt (Gt (Name (str ''ret'')) (Name (str ''LIMIT'')))
           [Assign (str ''ret'') (Name (str ''LIMIT''))],
         Return (Name (str ''ret''))]\<rparr>"
| "method_def FillCache =
     \<lparr>params = [str ''self'', str ''start'', str ''end'', str ''kwargs''],
      body =
        [IfStmt (IsNotNone (Name (str ''start'')))
           [IfStmt (Gt (Name (str ''start'')) (Name (str ''LIMIT'')))
              [Assign (str ''start'') (Name (str ''LIMIT''))]],
         IfStmt (IsNotNone (Name (str ''end'')))
           [IfStmt (Gt (Name (str ''end'')) (Name (str ''LIMIT'')))
              [Assign (str ''end'') (Name (str ''LIMIT''))]],
         ExprStmt (SuperCall (str ''_fill_cache'')
                     [str ''self'', str ''start'', str ''end'', str ''kwargs''])]\<rparr>"
| "method_def Count =
     \<lparr>params = [str ''self''],
      body =
        [Assign (str ''ret'') (SuperCall (str ''count'') [str ''self'']),
         IfStmt (Gt (Name (str ''ret'')) (Name (str ''LIMIT'')))
           [Assign (str ''ret'') (Name (str ''LIMIT''))],
         Return (Name (str ''ret''))]\<rparr>"

text \<open>
  The life of the process after the import: any sequence of calls of the three methods,
  each with any arguments.
\<close>

fun run_calls :: "world \<Rightarrow> (wrapper_method \<times> val list) list \<Rightarrow> process \<Rightarrow> (exn + val) list \<times> process" where
  "run_calls w [] p = ([], p)"
| "run_calls w ((m, args) # cs) p =
     (case call_function w (method_def m) args p of
        (r, p') \<Rightarrow> (case run_calls w cs p' of (rs, p'') \<Rightarrow> (r # rs, p'')))"

text \<open>A bound of a window as a value: unset is \<open>None\<close>.\<close>

fun bound_val :: "int option \<Rightarrow> val" where
  "bound_val None = VNone"
| "bound_val (Some i) = VInt i"

text \<open>Whether a statement reads the settings.\<close>

fun reads_settings_expr :: "expr \<Rightarrow> bool" where
  "reads_settings_expr (GetattrSettings name dflt) = True"
| "reads_settings_expr (Gt a b) = (reads_settings_expr a \<or> reads_settings_expr b)"
| "reads_settings_expr (IsNotNone a) = reads_settings_expr a"
| "reads_settings_expr (Name x) = False"
| "reads_settings_expr (Literal v) = False"
| "reads_settings_expr (SuperCall m xs) = False"

fun reads_settings :: "stmt \<Rightarrow> bool"
  and reads_settings_block :: "stmt list \<Rightarrow> bool" where
  "reads_settings (Assign x e) = reads_settings_expr e"
| "reads_settings (IfStmt c blk) = (reads_settings_expr c \<or> reads_settings_block blk)"
| "reads_settings (ExprStmt e) = reads_settings_expr e"
| "reads_settings (Return e) = reads_settings_expr e"
| "reads_settings (Global x) = False"
| "reads_settings_block [] = False"
| "reads_settings_block (st # sts) = (reads_settings st \<or> reads_settings_block sts)"

text \<open>
  What a run keeps: the local names of the frame, the module's globals and the number
  of times the settings have been read.
\<close>

definition kept :: "frame \<times> process \<Rightarrow> outcome \<times> frame \<times> process \<Rightarrow> bool" where
  "kept s r \<longleftrightarrow>
     local_names (fst (snd r)) = local_names (fst s)
     \<and> globals (snd (snd r)) = globals (snd s)
     \<and> settings_reads (snd (snd r)) = settings_reads (snd s)"

section \<open>Requests\<close>

text \<open>
  Django's \<open>QueryDict\<close> maps a parameter name to the list of values supplied for it.
  \<open>getlist\<close> returns that list, empty when the name is absent; \<open>get\<close> returns the last
  value, and \<open>None\<close> when there is none. \<open>request.GET\<close> and \<open>request.query_params\<close>
  are the same dictionary.
\<close>

type_synonym querydict = "pystr \<rightharpoonup> pystr list"

record request =
  query_params :: querydict

definition getlist :: "querydict \<Rightarrow> pystr \<Rightarrow> pystr list" where
  "getlist d key = (case d key of None \<Rightarrow> [] | Some vs \<Rightarrow> vs)"

definition get :: "querydict \<Rightarrow> pystr \<Rightarrow> pyval" where
  "get d key =
     (case d key of
        None \<Rightarrow> PyNone
      | Some [] \<Rightarrow> PyNone
      | Some (v # vs) \<Rightarrow> PyStr (last (v # vs)))"

section \<open>The validation gate\<close>

text \<open>
  \<open>str.strip()\<close> removes leading and trailing whitespace; \<open>isspace\<close> lists the code
  points Python counts as whitespace.
\<close>

definition isspace :: "nat \<Rightarrow> bool" where
  "isspace c \<longleftrightarrow>
     (9 \<le> c \<and> c \<le> 13) \<or> (28 \<le> c \<and> c \<le> 32) \<or> c = 133 \<or> c = 160 \<or> c = 5760
     \<or> (8192 \<le> c \<and> c \<le> 8202) \<or> c = 8232 \<or> c = 8233 \<or> c = 8239 \<or> c = 8287
     \<or> c = 12288"

definition strip :: "pystr \<Rightarrow> pystr" where
  "strip s = rev (dropWhile isspace (rev (dropWhile isspace s)))"

definition valid_search_query :: "pyval \<Rightarrow> pyval \<Rightarrow> bool" where
  "valid_search_query query topic_id =
     (let is_valid = False;
          is_valid = (case query of
                        PyStr q \<Rightarrow> if length (strip q) \<ge> 2 then True else is_valid
                      | _ \<Rightarrow> is_valid);
          is_valid = (case topic_id of
                        PyStr t \<Rightarrow> if length (strip t) > 0 then True else is_valid
                      | _ \<Rightarrow> is_valid)
      in is_valid)"

section \<open>CredentialSearchView.list\<close>

record api_exception =
  status_code :: int
  default_detail :: pystr
  default_code :: pystr

definition MissingTopicParametersException :: api_exception where
  "MissingTopicParametersException =
     \<lparr>status_code = 400,
      default_detail =
        str ''Please provide at least a 'name' (2 characters or more) or 'topic_id'.'',
      default_code = str ''bad_request''\<rparr>"

text \<open>
  What a handler can raise: one of this module's API exceptions, or whatever the
  inherited handler raised, which propagates unchanged.
\<close>

datatype 'e raised = APIException api_exception | Propagated 'e

datatype object_class = SearchQuerySet | TopicSearchQuerySet

text \<open>
  \<open>super_list\<close> is the inherited \<open>list\<close> of the framework, which runs the backend
  query: it takes the request and the state of the backend and returns a response or an
  exception, and the new state.
\<close>

definition call_super_list ::
  "(request \<Rightarrow> 's \<Rightarrow> ('e + 'r) \<times> 's) \<Rightarrow> request \<Rightarrow> 's \<Rightarrow> ('e raised + 'r) \<times> 's" where
  "call_super_list super_list req s =
     (case super_list req s of
        (Inl e, s') \<Rightarrow> (Inl (Propagated e), s')
      | (Inr ret, s') \<Rightarrow> (Inr ret, s'))"

definition CredentialSearchView_list ::
  "object_class \<Rightarrow> (request \<Rightarrow> 's \<Rightarrow> ('e + 'r) \<times> 's) \<Rightarrow> request \<Rightarrow> 's
     \<Rightarrow> ('e raised + 'r) \<times> 's" where
  "CredentialSearchView_list object_class super_list req s =
     (if object_class = TopicSearchQuerySet then
        (let query = get (query_params req) (str ''name'');
             topic_id = get (query_params req) (str ''topic_id'')
         in if \<not> valid_search_query query topic_id
            then (Inl (APIException MissingTopicParametersException), s)
            else call_super_list super_list req s)
      else call_super_list super_list req s)"

section \<open>CredentialSearchView.facets\<close>

datatype filter_backend =
  CredNameFilter | CategoryFilter | ExactFilter | StatusFilter | HaystackOrderingFilter
  | CustomFacetFilter

definition filter_backends :: "filter_backend list" where
  "filter_backends =
     [CredNameFilter, CategoryFilter, ExactFilter, StatusFilter, HaystackOrderingFilter]"

definition facet_filter_backends :: "filter_backend list" where
  "facet_filter_backends = [CredNameFilter, ExactFilter, StatusFilter, CustomFacetFilter]"

text \<open>
  The framework and the search library the view calls, as parameters: the view's
  \<open>get_queryset\<close>, the two executors that run a list of filter backends over a queryset
  (\<open>filter_facet_queryset\<close> reads the view's \<open>facet_filter_backends\<close>, \<open>filter_queryset\<close>
  its \<open>filter_backends\<close>), the queryset's \<open>narrow\<close>, which returns the narrowed
  queryset, \<open>query.clean\<close>, \<open>facet_counts\<close>, and the facet serializer's data.
\<close>

record ('q, 'fc, 'resp) framework =
  get_queryset :: "'q"
  filter_facet_queryset :: "filter_backend list \<Rightarrow> request \<Rightarrow> 'q \<Rightarrow> 'q"
  filter_queryset :: "filter_backend list \<Rightarrow> request \<Rightarrow> 'q \<Rightarrow> 'q"
  narrow :: "'q \<Rightarrow> pystr \<Rightarrow> 'q"
  clean :: "'q \<Rightarrow> pystr \<Rightarrow> pystr"
  facet_counts :: "'q \<Rightarrow> 'fc"
  get_facet_serializer :: "'fc \<Rightarrow> 'q \<Rightarrow> 'resp"

text \<open>The local variables of \<open>facets\<close>.\<close>

record 'q facets_locals =
  queryset :: 'q
  facet_queryset :: 'q
  result_queryset :: 'q

text \<open>\<open>'{}:"{}"'.format(key, cleaned)\<close>\<close>

definition format_clause :: "pystr \<Rightarrow> pystr \<Rightarrow> pystr" where
  "format_clause key cleaned = key @ str '':\"'' @ cleaned @ str ''\"''"

text \<open>The inner loop, over the values supplied for one key.\<close>

fun narrow_values ::
  "('q, 'fc, 'resp) framework \<Rightarrow> pystr \<Rightarrow> pystr list \<Rightarrow> 'q facets_locals \<Rightarrow> 'q facets_locals" where
  "narrow_values fw key [] l = l"
| "narrow_values fw key (v # vs) l =
     narrow_values fw key vs
       (if v \<noteq> [] then
          l\<lparr>facet_queryset :=
              narrow fw (facet_queryset l) (format_clause key (clean fw (queryset l) v))\<rparr>
        else l)"

text \<open>The outer loop, over the keys.\<close>

fun narrow_keys ::
  "('q, 'fc, 'resp) framework \<Rightarrow> request \<Rightarrow> pystr list \<Rightarrow> 'q facets_locals \<Rightarrow> 'q facets_locals" where
  "narrow_keys fw req [] l = l"
| "narrow_keys fw req (key # keys) l =
     narrow_keys fw req keys (narrow_values fw key (getlist (query_params req) key) l)"

definition facet_keys :: "pystr list" where
  "facet_keys =
     [str ''category'', str ''credential_type_id'', str ''topic_credential_type_id'',
      str ''issuer_id'']"

definition facets_loop :: "('q, 'fc, 'resp) framework \<Rightarrow> request \<Rightarrow> 'q facets_locals" where
  "facets_loop fw req =
     (let qs = get_queryset fw;
          fqs = filter_facet_queryset fw facet_filter_backends req qs;
          rqs = filter_queryset fw filter_backends req qs
      in narrow_keys fw req facet_keys
           \<lparr>queryset = qs, facet_queryset = fqs, result_queryset = rqs\<rparr>)"

definition facets :: "('q, 'fc, 'resp) framework \<Rightarrow> request \<Rightarrow> 'resp" where
  "facets fw req =
     (let l = facets_loop fw req
      in get_facet_serializer fw (facet_counts fw (facet_queryset l)) (result_queryset l))"

text \<open>
  The narrowing clauses of a request in the spec's words: for each key in turn, one
  exact-match clause \<open>key:"cleaned value"\<close> per supplied value that is not empty.
\<close>

definition narrowing_clauses ::
  "('q, 'fc, 'resp) framework \<Rightarrow> 'q \<Rightarrow> request \<Rightarrow> pystr list \<Rightarrow> pystr list" where
  "narrowing_clauses fw qs req keys =
     concat (map (\<lambda>key. map (\<lambda>v. format_clause key (clean fw qs v))
                          (filter (\<lambda>v. v \<noteq> []) (getlist (query_params req) key))) keys)"

text \<open>
  A framework to evaluate the view on: a queryset is the list of the clauses it was
  narrowed by, the filter backends add none, \<open>clean\<close> escapes nothing, the facet counts
  are the number of clauses, and the serializer pairs its two arguments.
\<close>

definition clause_framework :: "(pystr list, nat, nat \<times> pystr list) framework" where
  "clause_framework =
     \<lparr>get_queryset = [],
      filter_facet_queryset = (\<lambda>backends req q. q),
      filter_queryset = (\<lambda>backends req q. q),
      narrow = (\<lambda>q clause. q @ [clause]),
      clean = (\<lambda>q v. v),
      facet_counts = length,
      get_facet_serializer = Pair\<rparr>"

section \<open>Status parameters\<close>

text \<open>
  \<open>CredentialSearchView._swagger_params\<close>: the declared query parameters, each with its
  name, its \<open>enum\<close> and its \<open>default\<close> (\<open>None\<close> where the declaration gives none). The
  other arguments of a declaration (location, description, type) are documentation.
\<close>

record parameter =
  param_name :: pystr
  param_enum :: "pystr list option"
  param_default :: "pystr option"

definition swagger_params :: "parameter list" where
  "swagger_params =
     [\<lparr>param_name = str ''name'', param_enum = None, param_default = None\<rparr>,
      \<lparr>param_name = str ''inactive'',
       param_enum = Some [str ''any'', str ''false'', str ''true''],
       param_default = Some (str ''false'')\<rparr>,
      \<lparr>param_name = str ''latest'',
       param_enum = Some [str ''any'', str ''false'', str ''true''],
       param_default = Some (str ''true'')\<rparr>,
      \<lparr>param_name = str ''revoked'',
       param_enum = Some [str ''any'', str ''false'', str ''true''],
       param_default = Some (str ''false'')\<rparr>,
      \<lparr>param_name = str ''category'', param_enum = None, param_default = None\<rparr>,
      \<lparr>param_name = str ''credential_type_id'', param_enum = None, param_default = None\<rparr>,
      \<lparr>param_name = str ''topic_credential_type_id'', param_enum = None,
       param_default = None\<rparr>,
      \<lparr>param_name = str ''issuer_id'', param_enum = None, param_default = None\<rparr>,
      \<lparr>param_name = str ''topic_id'', param_enum = None, param_default = None\<rparr>]"

definition declared_default :: "pystr \<Rightarrow> pystr option" where
  "declared_default key =
     (case find (\<lambda>p. param_name p = key) swagger_params of
        None \<Rightarrow> None
      | Some p \<Rightarrow> param_default p)"

text \<open>
  Modelled from the spec: the status filter (\<open>StatusFilter\<close> of
  \<open>api.v2.search.filters\<close>, which is not part of the source). The spec gives it three
  status dimensions (inactive, revoked, latest), each a parameter with the values
  "any", "true" and "false"; "any" disables narrowing on that dimension, and an absent
  parameter uses the documented default of its dimension. How a dimension narrows the
  query is the backend's, a parameter here.
\<close>

definition status_dimensions :: "pystr list" where
  "status_dimensions = [str ''inactive'', str ''revoked'', str ''latest'']"

definition status_value :: "request \<Rightarrow> pystr \<Rightarrow> pyval" where
  "status_value req dim =
     (case get (query_params req) dim of
        PyNone \<Rightarrow> (case declared_default dim of None \<Rightarrow> PyNone | Some d \<Rightarrow> PyStr d)
      | v \<Rightarrow> v)"

fun status_narrow :: "('q \<Rightarrow> pystr \<Rightarrow> pyval \<Rightarrow> 'q) \<Rightarrow> request \<Rightarrow> pystr list \<Rightarrow> 'q \<Rightarrow> 'q" where
  "status_narrow narrow_dim req [] q = q"
| "status_narrow narrow_dim req (dim # dims) q =
     status_narrow narrow_dim req dims
       (let v = status_value req dim
        in if v = PyStr (str ''any'') then q else narrow_dim q dim v)"

definition status_filter :: "('q \<Rightarrow> pystr \<Rightarrow> pyval \<Rightarrow> 'q) \<Rightarrow> request \<Rightarrow> 'q \<Rightarrow> 'q" where
  "status_filter narrow_dim req q = status_narrow narrow_dim req status_dimensions q"

section \<open>The bounded query wrapper\<close>

text \<open>
  C1: for every ceiling \<open>LIMIT = L\<close> and every count reported by the base class,
  \<open>__len__\<close> and \<open>count\<close> both return the minimum of that count and \<open>L\<close>.
\<close>

theorem len_count_clamped:
  "TopicSearchQuerySet_len \<lparr>LIMIT = L\<rparr> super_len qs = min (super_len qs) L
   \<and> TopicSearchQuerySet_count \<lparr>LIMIT = L\<rparr> super_count qs = min (super_count qs) L"
  by (simp add: TopicSearchQuerySet_len_def TopicSearchQuerySet_count_def min_def)

text \<open>
  C2: \<open>_fill_cache\<close> delegates to the base class with \<open>start\<close> and \<open>end\<close> each clamped
  to \<open>LIMIT\<close> on its own; a bound that is \<open>None\<close> is passed on as \<open>None\<close>, and no bound
  that is passed on exceeds \<open>LIMIT\<close>. Calling it with \<open>Pair\<close> for the base method records
  the two arguments of the delegated call.
\<close>

theorem fill_cache_clamps_bounds:
  "TopicSearchQuerySet_fill_cache \<lparr>LIMIT = L\<rparr> super_fill_cache start end' =
     super_fill_cache
       (case start of None \<Rightarrow> None | Some s \<Rightarrow> Some (min s L))
       (case end' of None \<Rightarrow> None | Some e \<Rightarrow> Some (min e L))
   \<and> (\<forall>a b. TopicSearchQuerySet_fill_cache \<lparr>LIMIT = L\<rparr> Pair start end' = (a, b) \<longrightarrow>
         (\<forall>v. a = Some v \<longrightarrow> v \<le> L) \<and> (\<forall>v. b = Some v \<longrightarrow> v \<le> L)
         \<and> (start = None \<longrightarrow> a = None) \<and> (end' = None \<longrightarrow> b = None))"
  by (auto simp: TopicSearchQuerySet_fill_cache_def min_def split: option.splits if_splits)

theorem fill_cache_clamps_bounds_witness:
  "TopicSearchQuerySet_fill_cache \<lparr>LIMIT = 200\<rparr> Pair (Some 500) None = (Some 200, None)
   \<and> (200::int) \<le> 200"
  using fill_cache_clamps_bounds [of 200 Pair "Some 500" None]
  by simp

text \<open>
  C3, as the claim states it, fails where \<open>end\<close> is unset: with \<open>LIMIT = 2\<close>, three
  backend records and the window \<open>(3, None)\<close>, \<open>start\<close> is clamped to 2, \<open>end\<close> stays
  unset, and the window from position 2 on holds the third record.
\<close>

theorem fetch_window_unset_end_counterexample:
  "LIMIT \<lparr>LIMIT = 2\<rparr> < 3
   \<and> fetch_window \<lparr>LIMIT = 2\<rparr> [10, 20, 30 :: nat] (Some 3) None = [30]
   \<and> fetch_window \<lparr>LIMIT = 2\<rparr> [10, 20, 30 :: nat] (Some 3) None \<noteq> []"
  by (simp add: fetch_window_def TopicSearchQuerySet_fill_cache_def backend_materialize_def)

text \<open>
  C3, amended: for every window whose two bounds are set, the materialized window has
  at most \<open>LIMIT\<close> records (none when \<open>LIMIT\<close> is negative), and it is empty when
  \<open>start > LIMIT\<close>. When \<open>end\<close> is unset and \<open>start > LIMIT\<close>, the window is the
  backend's records from position \<open>LIMIT\<close> on.
\<close>

theorem fetch_window_bounded:
  "length (fetch_window \<lparr>LIMIT = L\<rparr> records (Some start) (Some end')) \<le> nat L
   \<and> (L < start \<longrightarrow> fetch_window \<lparr>LIMIT = L\<rparr> records (Some start) (Some end') = [])
   \<and> (L < start \<longrightarrow> fetch_window \<lparr>LIMIT = L\<rparr> records (Some start) None = drop (nat L) records)"
  by (auto simp: fetch_window_def TopicSearchQuerySet_fill_cache_def backend_materialize_def)

theorem fetch_window_bounded_witness:
  "length (fetch_window \<lparr>LIMIT = 2\<rparr> [10, 20, 30 :: nat] (Some 0) (Some 5)) \<le> nat 2
   \<and> (2::int) < 3
   \<and> fetch_window \<lparr>LIMIT = 2\<rparr> [10, 20, 30 :: nat] (Some 3) (Some 5) = []
   \<and> fetch_window \<lparr>LIMIT = 2\<rparr> [10, 20, 30 :: nat] (Some 3) None = drop (nat 2) [10, 20, 30]"
  using fetch_window_bounded [of 2 "[10, 20, 30 :: nat]" 0 5]
    fetch_window_bounded [of 2 "[10, 20, 30 :: nat]" 3 5]
  by simp

section \<open>The validation gate, proved\<close>

text \<open>
  C4: \<open>valid_search_query\<close> returns true exactly when the term is a string whose
  stripped length is at least 2 or the topic id is a string whose stripped length is at
  least 1; the five examples of the spec evaluate as it says.
\<close>

theorem valid_search_query_iff:
  "(valid_search_query query topic_id \<longleftrightarrow>
      (\<exists>s. query = PyStr s \<and> 2 \<le> length (strip s))
      \<or> (\<exists>s. topic_id = PyStr s \<and> 1 \<le> length (strip s)))
   \<and> valid_search_query (PyStr (str ''ab'')) (PyStr (str '''')) = True
   \<and> valid_search_query (PyStr (str ''a'')) (PyStr (str '''')) = False
   \<and> valid_search_query (PyStr (str '''')) (PyStr (str ''123'')) = True
   \<and> valid_search_query (PyStr (str '' '')) (PyStr (str '' '')) = False
   \<and> valid_search_query PyNone PyNone = False"
proof -
  have general: "valid_search_query query topic_id \<longleftrightarrow>
      (\<exists>s. query = PyStr s \<and> 2 \<le> length (strip s))
      \<or> (\<exists>s. topic_id = PyStr s \<and> 1 \<le> length (strip s))"
    by (cases query; cases topic_id) (auto simp: valid_search_query_def Let_def Suc_le_eq)
  have examples:
    "valid_search_query (PyStr (str ''ab'')) (PyStr (str ''''))"
    "\<not> valid_search_query (PyStr (str ''a'')) (PyStr (str ''''))"
    "valid_search_query (PyStr (str '''')) (PyStr (str ''123''))"
    "\<not> valid_search_query (PyStr (str '' '')) (PyStr (str '' ''))"
    "\<not> valid_search_query PyNone PyNone"
    by (simp_all add: valid_search_query_def strip_def isspace_def str_def)
  from general examples show ?thesis by simp
qed

section \<open>The list handler\<close>

text \<open>
  C5: in topic mode (\<open>object_class\<close> is \<open>TopicSearchQuerySet\<close>) the handler raises
  \<open>MissingTopicParametersException\<close>, whose status is 400 and whose message is the fixed
  one, exactly when \<open>valid_search_query\<close> rejects the \<open>name\<close> and \<open>topic_id\<close> of the
  request; it raises before the inherited handler runs, so the backend's state is the
  one the request found, whatever the inherited handler would have done to it.
\<close>

theorem topic_list_rejects_iff_invalid:
  "(fst (CredentialSearchView_list TopicSearchQuerySet super_list req s)
      = Inl (APIException MissingTopicParametersException)
    \<longleftrightarrow> \<not> valid_search_query (get (query_params req) (str ''name''))
            (get (query_params req) (str ''topic_id'')))
   \<and> (\<not> valid_search_query (get (query_params req) (str ''name''))
            (get (query_params req) (str ''topic_id''))
      \<longrightarrow> CredentialSearchView_list TopicSearchQuerySet super_list req s
            = (Inl (APIException MissingTopicParametersException), s))
   \<and> status_code MissingTopicParametersException = 400
   \<and> default_detail MissingTopicParametersException
       = str ''Please provide at least a 'name' (2 characters or more) or 'topic_id'.''"
  by (auto simp: CredentialSearchView_list_def call_super_list_def Let_def
        MissingTopicParametersException_def split: prod.splits sum.splits)

theorem topic_list_rejects_iff_invalid_witness:
  "\<not> valid_search_query (get (query_params \<lparr>query_params = Map.empty\<rparr>) (str ''name''))
        (get (query_params \<lparr>query_params = Map.empty\<rparr>) (str ''topic_id''))
   \<and> CredentialSearchView_list TopicSearchQuerySet
        (\<lambda>req n. (Inr req :: unit + request, Suc n)) \<lparr>query_params = Map.empty\<rparr> (0::nat)
       = (Inl (APIException MissingTopicParametersException), 0)"
  using topic_list_rejects_iff_invalid
    [of "\<lambda>req n. (Inr req :: unit + request, Suc n)" "\<lparr>query_params = Map.empty\<rparr>" "0::nat"]
  by (simp add: get_def valid_search_query_def)

section \<open>The facet orchestrator\<close>

text \<open>The two loops assign \<open>facet_queryset\<close> only.\<close>

lemma narrow_values_frame:
  "result_queryset (narrow_values fw key vs l) = result_queryset l
   \<and> queryset (narrow_values fw key vs l) = queryset l"
  by (induction vs arbitrary: l) auto

lemma narrow_keys_frame:
  "result_queryset (narrow_keys fw req keys l) = result_queryset l
   \<and> queryset (narrow_keys fw req keys l) = queryset l"
  by (induction keys arbitrary: l) (auto simp: narrow_values_frame)

text \<open>What the loops do to \<open>facet_queryset\<close>: one \<open>narrow\<close> per clause, in order.\<close>

lemma narrow_values_facet:
  "facet_queryset (narrow_values fw key vs l) =
     foldl (narrow fw) (facet_queryset l)
       (map (\<lambda>v. format_clause key (clean fw (queryset l) v)) (filter (\<lambda>v. v \<noteq> []) vs))"
  by (induction vs arbitrary: l) auto

lemma narrow_keys_facet:
  "facet_queryset (narrow_keys fw req keys l) =
     foldl (narrow fw) (facet_queryset l) (narrowing_clauses fw (queryset l) req keys)"
  by (induction keys arbitrary: l)
    (auto simp: narrowing_clauses_def narrow_values_facet narrow_values_frame)

text \<open>
  C6: the response of \<open>facets\<close> is the facet serializer applied to the facet counts of
  the facet queryset (the base queryset run through the facet filter backends, then
  narrowed by the loop) and to the result queryset, which is the same base queryset run
  through the full filter backends; the narrowing loop leaves \<open>result_queryset\<close> as it
  found it.
\<close>

theorem facets_combines_two_querysets:
  "facets fw req =
     get_facet_serializer fw
       (facet_counts fw
          (foldl (narrow fw)
             (filter_facet_queryset fw facet_filter_backends req (get_queryset fw))
             (narrowing_clauses fw (get_queryset fw) req facet_keys)))
       (filter_queryset fw filter_backends req (get_queryset fw))
   \<and> result_queryset (facets_loop fw req) = filter_queryset fw filter_backends req (get_queryset fw)
   \<and> result_queryset (narrow_keys fw req keys l) = result_queryset l
   \<and> filter_backends =
       [CredNameFilter, CategoryFilter, ExactFilter, StatusFilter, HaystackOrderingFilter]
   \<and> facet_filter_backends = [CredNameFilter, ExactFilter, StatusFilter, CustomFacetFilter]"
  by (simp add: facets_def facets_loop_def Let_def narrow_keys_frame narrow_keys_facet
        filter_backends_def facet_filter_backends_def)

text \<open>
  C7, as the claim states it, fails for a supplied value that is empty: a request with
  \<open>category=\<close> supplies one value for \<open>category\<close>, and the facet queryset is narrowed
  by no clause.
\<close>

theorem empty_value_adds_no_clause_counterexample:
  "getlist (query_params \<lparr>query_params = [str ''category'' \<mapsto> [str '''']]\<rparr>) (str ''category'')
     = [str '''']
   \<and> facet_queryset
       (facets_loop clause_framework \<lparr>query_params = [str ''category'' \<mapsto> [str '''']]\<rparr>) = []"
  by (simp add: facets_loop_def clause_framework_def facet_keys_def getlist_def str_def)

text \<open>
  C7, amended: the facet queryset is narrowed once per clause, in order, and the clauses
  are, for each of exactly the four names \<open>category\<close>, \<open>credential_type_id\<close>,
  \<open>topic_credential_type_id\<close> and \<open>issuer_id\<close>, one clause \<open>key:"cleaned value"\<close> per
  supplied value that is not empty; two non-empty values supplied for \<open>category\<close> give
  two clauses.
\<close>

theorem facets_narrowing_clauses:
  "facet_queryset (facets_loop fw req) =
     foldl (narrow fw) (filter_facet_queryset fw facet_filter_backends req (get_queryset fw))
       (narrowing_clauses fw (get_queryset fw) req facet_keys)
   \<and> narrowing_clauses fw qs req facet_keys =
       map (\<lambda>v. format_clause (str ''category'') (clean fw qs v))
         (filter (\<lambda>v. v \<noteq> []) (getlist (query_params req) (str ''category'')))
       @ map (\<lambda>v. format_clause (str ''credential_type_id'') (clean fw qs v))
         (filter (\<lambda>v. v \<noteq> []) (getlist (query_params req) (str ''credential_type_id'')))
       @ map (\<lambda>v. format_clause (str ''topic_credential_type_id'') (clean fw qs v))
         (filter (\<lambda>v. v \<noteq> []) (getlist (query_params req) (str ''topic_credential_type_id'')))
       @ map (\<lambda>v. format_clause (str ''issuer_id'') (clean fw qs v))
         (filter (\<lambda>v. v \<noteq> []) (getlist (query_params req) (str ''issuer_id'')))
   \<and> format_clause key cleaned = key @ str '':\"'' @ cleaned @ str ''\"''
   \<and> (v1 \<noteq> [] \<and> v2 \<noteq> [] \<longrightarrow>
        narrowing_clauses fw qs \<lparr>query_params = [str ''category'' \<mapsto> [v1, v2]]\<rparr> facet_keys =
          [format_clause (str ''category'') (clean fw qs v1),
           format_clause (str ''category'') (clean fw qs v2)])"
proof -
  have loop: "facet_queryset (facets_loop fw req) =
     foldl (narrow fw) (filter_facet_queryset fw facet_filter_backends req (get_queryset fw))
       (narrowing_clauses fw (get_queryset fw) req facet_keys)"
    by (simp add: facets_loop_def Let_def narrow_keys_facet)
  have clauses: "narrowing_clauses fw qs req facet_keys =
       map (\<lambda>v. format_clause (str ''category'') (clean fw qs v))
         (filter (\<lambda>v. v \<noteq> []) (getlist (query_params req) (str ''category'')))
       @ map (\<lambda>v. format_clause (str ''credential_type_id'') (clean fw qs v))
         (filter (\<lambda>v. v \<noteq> []) (getlist (query_params req) (str ''credential_type_id'')))
       @ map (\<lambda>v. format_clause (str ''topic_credential_type_id'') (clean fw qs v))
         (filter (\<lambda>v. v \<noteq> []) (getlist (query_params req) (str ''topic_credential_type_id'')))
       @ map (\<lambda>v. format_clause (str ''issuer_id'') (clean fw qs v))
         (filter (\<lambda>v. v \<noteq> []) (getlist (query_params req) (str ''issuer_id'')))" for req
    by (simp add: narrowing_clauses_def facet_keys_def)
  have twice: "narrowing_clauses fw qs \<lparr>query_params = [str ''category'' \<mapsto> [v1, v2]]\<rparr> facet_keys =
          [format_clause (str ''category'') (clean fw qs v1),
           format_clause (str ''category'') (clean fw qs v2)]"
    if "v1 \<noteq> []" "v2 \<noteq> []"
    using that by (simp add: clauses getlist_def) (simp add: str_def)
  from loop clauses twice show ?thesis
    by (simp add: format_clause_def)
qed

theorem facets_narrowing_clauses_witness:
  "str ''a::1'' \<noteq> [] \<and> str ''a::2'' \<noteq> []
   \<and> narrowing_clauses clause_framework []
        \<lparr>query_params = [str ''category'' \<mapsto> [str ''a::1'', str ''a::2'']]\<rparr> facet_keys
      = [str ''category:\"a::1\"'', str ''category:\"a::2\"'']"
proof -
  have supplied: "str ''a::1'' \<noteq> [] \<and> str ''a::2'' \<noteq> []"
    by (simp add: str_def)
  have "narrowing_clauses clause_framework []
          \<lparr>query_params = [str ''category'' \<mapsto> [str ''a::1'', str ''a::2'']]\<rparr> facet_keys
        = [format_clause (str ''category'') (clean clause_framework [] (str ''a::1'')),
           format_clause (str ''category'') (clean clause_framework [] (str ''a::2''))]"
    using facets_narrowing_clauses
      [where fw = clause_framework and qs = "[]" and ?v1.0 = "str ''a::1''"
         and ?v2.0 = "str ''a::2''", THEN conjunct2, THEN conjunct2, THEN conjunct2]
      supplied
    by (rule mp)
  then show ?thesis
    using supplied by (simp add: format_clause_def clause_framework_def str_def)
qed

text \<open>
  C10: in the narrowing loop a supplied value that is the empty string is skipped, for
  any key: the loop over a key's values does the same with or without an empty value
  among them and does nothing when all of them are empty, the loop over the keys does
  the same for a request and for that request with its empty values taken out, and a
  request that supplies only an empty \<open>issuer_id\<close> leaves the facet queryset as the
  facet filter backends made it.
\<close>

theorem facets_skips_empty_values:
  "narrow_values fw key (vs1 @ [] # vs2) l = narrow_values fw key (vs1 @ vs2) l
   \<and> narrow_values fw key (replicate n []) l = l
   \<and> narrow_keys fw (req\<lparr>query_params := map_option (filter (\<lambda>v. v \<noteq> [])) \<circ> query_params req\<rparr>)
       keys l = narrow_keys fw req keys l
   \<and> facet_queryset (facets_loop fw \<lparr>query_params = [str ''issuer_id'' \<mapsto> [str '''']]\<rparr>)
       = filter_facet_queryset fw facet_filter_backends
           \<lparr>query_params = [str ''issuer_id'' \<mapsto> [str '''']]\<rparr> (get_queryset fw)"
proof -
  have a: "narrow_values fw key (vs1 @ [] # vs2) l = narrow_values fw key (vs1 @ vs2) l"
    by (induction vs1 arbitrary: l) simp_all
  have b: "narrow_values fw key (replicate n []) l = l"
    by (induction n) simp_all
  have skip: "narrow_values fw key (filter (\<lambda>v. v \<noteq> []) vs) l = narrow_values fw key vs l"
    for key vs l
    by (induction vs arbitrary: l) simp_all
  have c: "narrow_keys fw (req\<lparr>query_params := map_option (filter (\<lambda>v. v \<noteq> [])) \<circ> query_params req\<rparr>)
       keys l = narrow_keys fw req keys l"
  proof (induction keys arbitrary: l)
    case Nil
    show ?case by simp
  next
    case (Cons key keys)
    have "getlist (map_option (filter (\<lambda>v. v \<noteq> [])) \<circ> query_params req) key
            = filter (\<lambda>v. v \<noteq> []) (getlist (query_params req) key)"
      by (simp add: getlist_def split: option.splits)
    with Cons show ?case by (simp add: skip comp_def)
  qed
  have d: "facet_queryset (facets_loop fw \<lparr>query_params = [str ''issuer_id'' \<mapsto> [str '''']]\<rparr>)
       = filter_facet_queryset fw facet_filter_backends
           \<lparr>query_params = [str ''issuer_id'' \<mapsto> [str '''']]\<rparr> (get_queryset fw)"
    by (simp add: facets_loop_def Let_def facet_keys_def getlist_def str_def)
  from a b c d show ?thesis by simp
qed

section \<open>Status defaults\<close>

text \<open>
  C8: the status filter treats a request without \<open>latest\<close> as the same request with
  \<open>latest=true\<close>, and a request without \<open>revoked\<close> as the same request with
  \<open>revoked=false\<close>; the defaults the view declares are \<open>false\<close> for \<open>inactive\<close>, \<open>true\<close>
  for \<open>latest\<close> and \<open>false\<close> for \<open>revoked\<close>.
\<close>

theorem absent_status_parameter_uses_default:
  "status_filter narrow_dim \<lparr>query_params = d(str ''latest'' := None)\<rparr> q
     = status_filter narrow_dim \<lparr>query_params = d(str ''latest'' \<mapsto> [str ''true''])\<rparr> q
   \<and> status_filter narrow_dim \<lparr>query_params = d(str ''revoked'' := None)\<rparr> q
     = status_filter narrow_dim \<lparr>query_params = d(str ''revoked'' \<mapsto> [str ''false''])\<rparr> q
   \<and> declared_default (str ''inactive'') = Some (str ''false'')
   \<and> declared_default (str ''latest'') = Some (str ''true'')
   \<and> declared_default (str ''revoked'') = Some (str ''false'')"
proof -
  have defaults:
    "declared_default (str ''inactive'') = Some (str ''false'')"
    "declared_default (str ''latest'') = Some (str ''true'')"
    "declared_default (str ''revoked'') = Some (str ''false'')"
    by (simp_all add: declared_default_def swagger_params_def str_def)
  have distinct: "str ''inactive'' \<noteq> str ''latest''" "str ''inactive'' \<noteq> str ''revoked''"
    "str ''revoked'' \<noteq> str ''latest''" "str ''latest'' \<noteq> str ''revoked''"
    by (simp_all add: str_def)
  have latest: "status_filter narrow_dim \<lparr>query_params = d(str ''latest'' := None)\<rparr> q
     = status_filter narrow_dim \<lparr>query_params = d(str ''latest'' \<mapsto> [str ''true''])\<rparr> q"
    using distinct defaults
    by (simp add: status_filter_def status_dimensions_def status_value_def get_def Let_def)
  have revoked: "status_filter narrow_dim \<lparr>query_params = d(str ''revoked'' := None)\<rparr> q
     = status_filter narrow_dim \<lparr>query_params = d(str ''revoked'' \<mapsto> [str ''false''])\<rparr> q"
    using distinct defaults
    by (simp add: status_filter_def status_dimensions_def status_value_def get_def Let_def)
  from defaults latest revoked show ?thesis by simp
qed

section \<open>The ceiling is bound once, when the module is imported\<close>

text \<open>The names the three bodies use are different names.\<close>

lemma names_distinct:
  "str ''self'' \<noteq> str ''ret''" "str ''ret'' \<noteq> str ''self''"
  "str ''LIMIT'' \<noteq> str ''ret''" "str ''LIMIT'' \<noteq> str ''self''"
  "str ''LIMIT'' \<noteq> str ''start''" "str ''LIMIT'' \<noteq> str ''end''"
  "str ''LIMIT'' \<noteq> str ''kwargs''"
  "str ''self'' \<noteq> str ''start''" "str ''self'' \<noteq> str ''end''" "str ''self'' \<noteq> str ''kwargs''"
  "str ''start'' \<noteq> str ''end''" "str ''start'' \<noteq> str ''kwargs''" "str ''end'' \<noteq> str ''kwargs''"
  "str ''start'' \<noteq> str ''self''" "str ''end'' \<noteq> str ''self''" "str ''kwargs'' \<noteq> str ''self''"
  "str ''end'' \<noteq> str ''start''" "str ''kwargs'' \<noteq> str ''start''" "str ''kwargs'' \<noteq> str ''end''"
  by (simp_all add: str_def)

lemma eval_expr_globals_rel:
  "eval_expr w fr p e = (r, p') \<Longrightarrow> globals p' = globals p"
proof (induction e arbitrary: p r p')
  case (Gt a b)
  obtain ra pa where ea: "eval_expr w fr p a = (ra, pa)" by (cases "eval_expr w fr p a")
  obtain rb pb where eb: "eval_expr w fr pa b = (rb, pb)" by (cases "eval_expr w fr pa b")
  from Gt.IH(1) [OF ea] Gt.IH(2) [OF eb] have "globals pa = globals p" "globals pb = globals p"
    by simp_all
  with Gt.prems ea eb show ?case by (auto split: sum.splits)
next
  case (IsNotNone a)
  obtain ra pa where ea: "eval_expr w fr p a = (ra, pa)" by (cases "eval_expr w fr p a")
  from IsNotNone.IH [OF ea] IsNotNone.prems ea show ?case by (auto split: sum.splits)
qed (auto split: sum.splits)

lemma eval_expr_reads_rel:
  "\<not> reads_settings_expr e \<Longrightarrow> eval_expr w fr p e = (r, p')
     \<Longrightarrow> settings_reads p' = settings_reads p"
proof (induction e arbitrary: p r p')
  case (Gt a b)
  obtain ra pa where ea: "eval_expr w fr p a = (ra, pa)" by (cases "eval_expr w fr p a")
  obtain rb pb where eb: "eval_expr w fr pa b = (rb, pb)" by (cases "eval_expr w fr pa b")
  from Gt.prems(1) have no: "\<not> reads_settings_expr a" "\<not> reads_settings_expr b" by simp_all
  from Gt.IH(1) [OF no(1) ea] Gt.IH(2) [OF no(2) eb]
  have "settings_reads pa = settings_reads p" "settings_reads pb = settings_reads p"
    by simp_all
  with Gt.prems ea eb show ?case by (auto split: sum.splits)
next
  case (IsNotNone a)
  obtain ra pa where ea: "eval_expr w fr p a = (ra, pa)" by (cases "eval_expr w fr p a")
  from IsNotNone.prems(1) have no: "\<not> reads_settings_expr a" by simp
  from IsNotNone.IH [OF no ea] IsNotNone.prems ea show ?case by (auto split: sum.splits)
qed (auto split: sum.splits)

lemma eval_expr_keeps_globals:
  "globals (snd (eval_expr w fr p e)) = globals p"
  using eval_expr_globals_rel [of w fr p e] by (cases "eval_expr w fr p e") simp

lemma eval_expr_keeps_reads:
  "\<not> reads_settings_expr e \<Longrightarrow> settings_reads (snd (eval_expr w fr p e)) = settings_reads p"
  using eval_expr_reads_rel [of e w fr p] by (cases "eval_expr w fr p e") simp

lemma exec_keeps:
  "set (assigned_names st) \<subseteq> set (local_names (fst s)) \<Longrightarrow> \<not> reads_settings st
     \<Longrightarrow> kept s (exec w st s)"
  "set (assigned_names_block sts) \<subseteq> set (local_names (fst s)) \<Longrightarrow> \<not> reads_settings_block sts
     \<Longrightarrow> kept s (exec_block w sts s)"
proof (induction w st s and w sts s rule: exec_exec_block.induct)
  case (1 w x e fr p)
  with eval_expr_keeps_globals [of w fr p e] eval_expr_keeps_reads [of e w fr p]
  show ?case by (auto simp: kept_def split: prod.splits sum.splits)
next
  case (2 w c body fr p)
  obtain r p' where ev: "eval_expr w fr p c = (r, p')" by (cases "eval_expr w fr p c")
  with 2 eval_expr_keeps_globals [of w fr p c] eval_expr_keeps_reads [of c w fr p]
  have same: "globals p' = globals p" "settings_reads p' = settings_reads p" by auto
  show ?case
  proof (cases r)
    case (Inl ex)
    with ev same show ?thesis by (simp add: kept_def)
  next
    case (Inr v)
    show ?thesis
    proof (cases "truthy v")
      case False
      with ev Inr same show ?thesis by (simp add: kept_def)
    next
      case True
      with 2 ev Inr have "kept (fr, p') (exec_block w body (fr, p'))" by simp
      with ev Inr True same show ?thesis by (simp add: kept_def)
    qed
  qed
next
  case (3 w e fr p)
  with eval_expr_keeps_globals [of w fr p e] eval_expr_keeps_reads [of e w fr p]
  show ?case by (auto simp: kept_def split: prod.splits sum.splits)
next
  case (4 w e fr p)
  with eval_expr_keeps_globals [of w fr p e] eval_expr_keeps_reads [of e w fr p]
  show ?case by (auto simp: kept_def split: prod.splits sum.splits)
next
  case (5 w x fr p)
  show ?case by (simp add: kept_def)
next
  case (6 w s)
  show ?case by (simp add: kept_def)
next
  case (7 w st sts s)
  from 7 have first: "kept s (exec w st s)" by simp
  obtain out s' where ex: "exec w st s = (out, s')" by (cases "exec w st s")
  show ?case
  proof (cases out)
    case Normal
    from first ex have names: "local_names (fst s') = local_names (fst s)"
      by (simp add: kept_def)
    with 7 ex Normal have "kept s' (exec_block w sts s')" by simp
    with first ex Normal show ?thesis by (simp add: kept_def)
  next
    case (Returned v)
    with first ex show ?thesis by simp
  next
    case (Raised e)
    with first ex show ?thesis by simp
  qed
qed

lemma call_function_keeps:
  assumes "declared_global_block (body f) = []" and "\<not> reads_settings_block (body f)"
  shows "globals (snd (call_function w f args p)) = globals p
         \<and> settings_reads (snd (call_function w f args p)) = settings_reads p"
proof (cases "length args = length (params f)")
  case False
  then show ?thesis by (simp add: call_function_def)
next
  case True
  define fr where "fr = \<lparr>local_names = params f @ assigned_names_block (body f),
                         locals = map_of (zip (params f) args)\<rparr>"
  have "kept (fr, p) (exec_block w (body f) (fr, p))"
    using assms by (intro exec_keeps) (simp_all add: fr_def)
  with True assms show ?thesis
    by (auto simp: call_function_def kept_def fr_def split: prod.splits outcome.splits)
qed

lemma call_keeps_globals:
  "globals (snd (call_function w (method_def m) args p)) = globals p
   \<and> settings_reads (snd (call_function w (method_def m) args p)) = settings_reads p"
  by (rule call_function_keeps; cases m; simp)

lemma run_keeps_globals:
  "globals (snd (run_calls w calls p)) = globals p
   \<and> settings_reads (snd (run_calls w calls p)) = settings_reads p"
proof (induction calls arbitrary: p)
  case Nil
  show ?case by simp
next
  case (Cons c cs)
  obtain m args where c: "c = (m, args)" by (cases c)
  obtain r p' where step: "call_function w (method_def m) args p = (r, p')"
    by (cases "call_function w (method_def m) args p")
  from call_keeps_globals [of w m args p] step
  have "globals p' = globals p \<and> settings_reads p' = settings_reads p" by simp
  with Cons [of p'] c step show ?case
    by (auto split: prod.splits)
qed

lemma import_module_result:
  "import_module w =
     (Normal, \<lparr>globals = [str ''LIMIT'' \<mapsto> VInt (LIMIT (load_module (settings_of w)))],
               settings_reads = 1, super_calls = []\<rparr>)"
  by (simp add: import_module_def module_body_def load_module_def getattr_def
        split: option.splits)

lemma len_reads_limit:
  "globals p (str ''LIMIT'') = Some (VInt L) \<Longrightarrow> super_method w (str ''__len__'') [self] = VInt c
   \<Longrightarrow> fst (call_function w (method_def Len) [self] p)
         = Inr (VInt (TopicSearchQuerySet_len \<lparr>LIMIT = L\<rparr> (\<lambda>qs. c) self))"
  by (simp add: call_function_def lookup_def py_gt_def names_distinct TopicSearchQuerySet_len_def)

lemma count_reads_limit:
  "globals p (str ''LIMIT'') = Some (VInt L) \<Longrightarrow> super_method w (str ''count'') [self] = VInt c
   \<Longrightarrow> fst (call_function w (method_def Count) [self] p)
         = Inr (VInt (TopicSearchQuerySet_count \<lparr>LIMIT = L\<rparr> (\<lambda>qs. c) self))"
  by (simp add: call_function_def lookup_def py_gt_def names_distinct TopicSearchQuerySet_count_def)

lemma fill_cache_reads_limit:
  "globals p (str ''LIMIT'') = Some (VInt L)
   \<Longrightarrow> call_function w (method_def FillCache) [self, bound_val start, bound_val end', kwargs] p
       = (Inr VNone,
          p\<lparr>super_calls := super_calls p @
               [TopicSearchQuerySet_fill_cache \<lparr>LIMIT = L\<rparr>
                  (\<lambda>s e. (str ''_fill_cache'', [self, bound_val s, bound_val e, kwargs]))
                  start end']\<rparr>)"
  by (cases start; cases end')
    (simp_all add: call_function_def lookup_def py_gt_def names_distinct
       TopicSearchQuerySet_fill_cache_def)


text \<open>
  A function does rebind a module global when it declares the name global, so that the
  three methods leave \<open>LIMIT\<close> alone is a fact about their bodies.
\<close>

lemma global_declaration_rebinds:
  "globals (snd (call_function w
      \<lparr>params = [], body = [Global (str ''LIMIT''), Assign (str ''LIMIT'') (Literal (VInt 0))]\<rparr>
      [] p)) (str ''LIMIT'') = Some (VInt 0)"
  by (simp add: call_function_def)

text \<open>
  C9: importing the module reads the settings once and binds \<open>LIMIT\<close> to the setting
  \<open>HAYSTACK_MAX_RESULTS\<close>, or to 200 when the settings have none. After any sequence of
  calls of \<open>__len__\<close>, \<open>_fill_cache\<close> and \<open>count\<close>, with any arguments, the module's
  globals are those of the import and the settings have still been read once; and a
  call made then clamps with the value bound at the import: \<open>__len__\<close> and \<open>count\<close>
  return, and \<open>_fill_cache\<close> passes to the base class, what the methods compute from
  that value.
\<close>

theorem limit_read_once_never_rebound:
  "import_module w =
     (Normal, \<lparr>globals = [str ''LIMIT'' \<mapsto> VInt (LIMIT (load_module (settings_of w)))],
               settings_reads = 1, super_calls = []\<rparr>)
   \<and> LIMIT (load_module (settings_of w)) =
       (case settings_of w (str ''HAYSTACK_MAX_RESULTS'') of None \<Rightarrow> 200 | Some v \<Rightarrow> v)
   \<and> globals (snd (run_calls w calls (snd (import_module w)))) = globals (snd (import_module w))
   \<and> settings_reads (snd (run_calls w calls (snd (import_module w)))) = 1
   \<and> (super_method w (str ''__len__'') [self] = VInt c \<longrightarrow>
        fst (call_function w (method_def Len) [self]
               (snd (run_calls w calls (snd (import_module w)))))
          = Inr (VInt (TopicSearchQuerySet_len (load_module (settings_of w)) (\<lambda>qs. c) self)))
   \<and> (super_method w (str ''count'') [self] = VInt c \<longrightarrow>
        fst (call_function w (method_def Count) [self]
               (snd (run_calls w calls (snd (import_module w)))))
          = Inr (VInt (TopicSearchQuerySet_count (load_module (settings_of w)) (\<lambda>qs. c) self)))
   \<and> super_calls (snd (call_function w (method_def FillCache)
                          [self, bound_val start, bound_val end', kwargs]
                          (snd (run_calls w calls (snd (import_module w))))))
       = super_calls (snd (run_calls w calls (snd (import_module w)))) @
           [TopicSearchQuerySet_fill_cache (load_module (settings_of w))
              (\<lambda>s e. (str ''_fill_cache'', [self, bound_val s, bound_val e, kwargs]))
              start end']"
proof -
  define L where "L = LIMIT (load_module (settings_of w))"
  define p0 where "p0 = snd (import_module w)"
  define p where "p = snd (run_calls w calls p0)"
  have g: "load_module (settings_of w) = \<lparr>LIMIT = L\<rparr>"
    by (simp add: L_def load_module_def)
  have imp: "import_module w =
     (Normal, \<lparr>globals = [str ''LIMIT'' \<mapsto> VInt L], settings_reads = 1, super_calls = []\<rparr>)"
    unfolding L_def by (rule import_module_result)
  have lim: "L = (case settings_of w (str ''HAYSTACK_MAX_RESULTS'') of None \<Rightarrow> 200 | Some v \<Rightarrow> v)"
    by (simp add: L_def load_module_def getattr_def)
  have same: "globals p = globals p0" "settings_reads p = settings_reads p0"
    using run_keeps_globals [of w calls p0] by (simp_all add: p_def)
  have p0: "globals p0 (str ''LIMIT'') = Some (VInt L)" "settings_reads p0 = 1"
    by (simp_all add: p0_def imp)
  have limit: "globals p (str ''LIMIT'') = Some (VInt L)"
    using same p0 by simp
  have len: "fst (call_function w (method_def Len) [self] p)
          = Inr (VInt (TopicSearchQuerySet_len \<lparr>LIMIT = L\<rparr> (\<lambda>qs. c) self))"
    if "super_method w (str ''__len__'') [self] = VInt c"
    using limit that by (rule len_reads_limit)
  have count: "fst (call_function w (method_def Count) [self] p)
          = Inr (VInt (TopicSearchQuerySet_count \<lparr>LIMIT = L\<rparr> (\<lambda>qs. c) self))"
    if "super_method w (str ''count'') [self] = VInt c"
    using limit that by (rule count_reads_limit)
  have fill: "super_calls (snd (call_function w (method_def FillCache)
                          [self, bound_val start, bound_val end', kwargs] p))
       = super_calls p @
           [TopicSearchQuerySet_fill_cache \<lparr>LIMIT = L\<rparr>
              (\<lambda>s e. (str ''_fill_cache'', [self, bound_val s, bound_val e, kwargs]))
              start end']"
    using fill_cache_reads_limit [OF limit, of w self start end' kwargs] by simp
  from imp lim same p0 len count fill show ?thesis
    unfolding g p_def p0_def L_def [symmetric] by simp
qed

theorem limit_read_once_never_rebound_witness:
  "super_method \<lparr>settings_of = Map.empty, super_method = (\<lambda>m vs. VInt 500)\<rparr>
       (str ''__len__'') [VObj 0] = VInt 500
   \<and> super_method \<lparr>settings_of = Map.empty, super_method = (\<lambda>m vs. VInt 500)\<rparr>
       (str ''count'') [VObj 0] = VInt 500
   \<and> fst (call_function \<lparr>settings_of = Map.empty, super_method = (\<lambda>m vs. VInt 500)\<rparr>
            (method_def Len) [VObj 0]
            (snd (run_calls \<lparr>settings_of = Map.empty, super_method = (\<lambda>m vs. VInt 500)\<rparr>
                    [(FillCache, [VObj 0, VInt 700, VNone, VObj 1]), (Count, [VObj 0])]
                    (snd (import_module
                            \<lparr>settings_of = Map.empty, super_method = (\<lambda>m vs. VInt 500)\<rparr>)))))
       = Inr (VInt 200)
   \<and> fst (call_function \<lparr>settings_of = Map.empty, super_method = (\<lambda>m vs. VInt 500)\<rparr>
            (method_def Count) [VObj 0]
            (snd (run_calls \<lparr>settings_of = Map.empty, super_method = (\<lambda>m vs. VInt 500)\<rparr>
                    [(FillCache, [VObj 0, VInt 700, VNone, VObj 1]), (Count, [VObj 0])]
                    (snd (import_module
                            \<lparr>settings_of = Map.empty, super_method = (\<lambda>m vs. VInt 500)\<rparr>)))))
       = Inr (VInt 200)"
proof -
  let ?w = "\<lparr>settings_of = Map.empty, super_method = (\<lambda>m vs. VInt 500)\<rparr>"
  let ?calls = "[(FillCache, [VObj 0, VInt 700, VNone, VObj 1]), (Count, [VObj 0])]"
  note at_input = limit_read_once_never_rebound [of ?w ?calls "VObj 0" 500]
  have base_len: "super_method ?w (str ''__len__'') [VObj 0] = VInt 500" by simp
  have base_count: "super_method ?w (str ''count'') [VObj 0] = VInt 500" by simp
  have len_200: "TopicSearchQuerySet_len (load_module (settings_of ?w)) (\<lambda>qs. 500) (VObj 0) = 200"
    by (simp add: TopicSearchQuerySet_len_def load_module_def getattr_def)
  have count_200:
    "TopicSearchQuerySet_count (load_module (settings_of ?w)) (\<lambda>qs. 500) (VObj 0) = 200"
    by (simp add: TopicSearchQuerySet_count_def load_module_def getattr_def)
  note len = at_input [THEN conjunct2, THEN conjunct2, THEN conjunct2, THEN conjunct2,
      THEN conjunct1, THEN mp, OF base_len, unfolded len_200]
  note count = at_input [THEN conjunct2, THEN conjunct2, THEN conjunct2, THEN conjunct2,
      THEN conjunct2, THEN conjunct1, THEN mp, OF base_count, unfolded count_200]
  from base_len base_count len count show ?thesis by (intro conjI)
qed

end
